theory Spec2Isabelle
  imports Main "HOL-Library.Word"
begin

unbundle bit_operations_syntax

section \<open>Common types of the handlers\<close>

text \<open>
  The handlers of \<^verbatim>\<open>audio/decobsmt.cpp\<close> and \<^verbatim>\<open>drivers/djboy.cpp\<close> are
  \<^verbatim>\<open>READ8_MEMBER\<close> / \<^verbatim>\<open>WRITE8_MEMBER\<close> functions: they receive an address space, an
  offset, a byte and a mask. Only \<^verbatim>\<open>bsmt1_w\<close> looks at its offset; no handler looks at the
  space or the mask, so the model passes the byte (and the offset where it is used).
  A write handler maps the state to the new state, a read handler returns the byte read
  and the state it leaves behind.
\<close>

type_synonym u8 = "8 word"
type_synonym u32 = "32 word"

text \<open>The macro \<^verbatim>\<open>BIT(x, n)\<close>: bit \<open>n\<close> of \<open>x\<close> as 0 or 1.\<close>

definition BIT :: "u8 \<Rightarrow> nat \<Rightarrow> u8" where
  "BIT x n = drop_bit n x AND 1"

datatype line_state = CLEAR_LINE | ASSERT_LINE | HOLD_LINE | PULSE_LINE

datatype input_line =
  INPUT_LINE_RESET | INPUT_LINE_NMI | INPUT_LINE_IRQ0 | M6809_IRQ_LINE | M6809_FIRQ_LINE


section \<open>The latch\<close>

text \<open>
  Modelled from the spec: \<^verbatim>\<open>generic_latch_8_device\<close> is used by the driver and not part of
  the sources at hand. The spec describes it as a one-byte mailbox: a value and a pending
  flag; \<open>write\<close> stores the value and sets pending; \<open>read\<close> returns the stored value and
  clears pending unless the latch is configured for separate acknowledge; \<open>acknowledge\<close>
  clears pending; \<open>pending\<close> returns the flag and changes nothing. The optional interrupt
  line of a latch is raised and lowered together with the flag, so its level is the value
  of \<open>pending\<close>.
\<close>

record generic_latch_8 =
  latched_value :: u8
  pending :: bool
  separate_acknowledge :: bool

definition latch_add :: "bool \<Rightarrow> generic_latch_8" where
  "latch_add sep = \<lparr>latched_value = 0, pending = False, separate_acknowledge = sep\<rparr>"

definition latch_write :: "u8 \<Rightarrow> generic_latch_8 \<Rightarrow> generic_latch_8" where
  "latch_write v l = l\<lparr>latched_value := v, pending := True\<rparr>"

definition latch_read :: "generic_latch_8 \<Rightarrow> u8 \<times> generic_latch_8" where
  "latch_read l =
     (latched_value l, if separate_acknowledge l then l else l\<lparr>pending := False\<rparr>)"

definition latch_acknowledge :: "generic_latch_8 \<Rightarrow> generic_latch_8" where
  "latch_acknowledge l = l\<lparr>pending := False\<rparr>"

definition pending_r :: "generic_latch_8 \<Rightarrow> bool" where
  "pending_r l = pending l"

section \<open>The bank-switch unit\<close>

datatype rom_region = REGION_mastercpu | REGION_slavecpu | REGION_soundcpu

text \<open>
  Modelled from the spec: \<^verbatim>\<open>memory_bank\<close> is used by the driver and not part of the sources
  at hand. The spec describes the bank state as a current bank index that is mapped only
  if the index is within the configured range and that selects an offset into a backing
  byte array; \<open>select(index)\<close> sets the active bank, and a read through the window at
  \<open>offset\<close> returns \<open>backing[index * bank_size + offset]\<close>. An entry is a pointer into a
  region (\<^verbatim>\<open>&MASTER[0x00000]\<close>): the region and the offset of the entry's first byte.
  \<^verbatim>\<open>configure_entries(start, n, base, stride)\<close> gives entry \<open>start + k\<close> the pointer
  \<open>base + k * stride\<close> for \<open>k < n\<close>. The unit itself applies no mask to a selected index:
  where the driver masks or skips an index, it does so in its handler. A window read is
  \<open>None\<close> when the current index has no entry or the address lies outside the region.
\<close>

record memory_bank =
  entries :: "nat \<Rightarrow> (rom_region \<times> nat) option"
  curentry :: nat

definition bank_add :: memory_bank where
  "bank_add = \<lparr>entries = (\<lambda>_. None), curentry = 0\<rparr>"

definition configure_entry :: "nat \<Rightarrow> rom_region \<times> nat \<Rightarrow> memory_bank \<Rightarrow> memory_bank" where
  "configure_entry n base b = b\<lparr>entries := (entries b)(n \<mapsto> base)\<rparr>"

definition configure_entries ::
  "nat \<Rightarrow> nat \<Rightarrow> rom_region \<times> nat \<Rightarrow> nat \<Rightarrow> memory_bank \<Rightarrow> memory_bank" where
  "configure_entries startentry numentries base stride b =
     b\<lparr>entries := (\<lambda>n. if startentry \<le> n \<and> n < startentry + numentries
                         then Some (fst base, snd base + (n - startentry) * stride)
                         else entries b n)\<rparr>"

definition set_entry :: "nat \<Rightarrow> memory_bank \<Rightarrow> memory_bank" where
  "set_entry n b = b\<lparr>curentry := n\<rparr>"

definition entry_configured :: "memory_bank \<Rightarrow> nat \<Rightarrow> bool" where
  "entry_configured b n = (entries b n \<noteq> None)"

definition bank_read :: "(rom_region \<Rightarrow> u8 list) \<Rightarrow> memory_bank \<Rightarrow> nat \<Rightarrow> u8 option" where
  "bank_read mem b off =
     (case entries b (curentry b) of
        None \<Rightarrow> None
      | Some (r, base) \<Rightarrow>
          if base + off < length (mem r) then Some (mem r ! (base + off)) else None)"

section \<open>The BSMT2000 sound board (audio/decobsmt.cpp)\<close>

text \<open>
  The board owns three registers. Its sound CPU and its BSMT2000 chip are other devices:
  every call the board makes on them is appended to \<open>bsmt_calls\<close>, in program order.
\<close>

datatype decobsmt_call =
  Bsmt_reset
| Bsmt_write_reg u32
| Bsmt_write_data u32
| Ourcpu_set_input_line input_line line_state

datatype decobsmt_item = ITEM_m_bsmt_latch | ITEM_m_bsmt_reset | ITEM_m_bsmt_comms

record decobsmt_device =
  m_bsmt_latch :: u8
  m_bsmt_reset :: u8
  m_bsmt_comms :: u8
  bsmt_calls :: "decobsmt_call list"
  bsmt_save_items :: "decobsmt_item list"

definition bsmt_ready_callback :: "decobsmt_device \<Rightarrow> decobsmt_device" where
  "bsmt_ready_callback s =
     s\<lparr>bsmt_calls := bsmt_calls s @ [Ourcpu_set_input_line M6809_IRQ_LINE ASSERT_LINE]\<rparr>"

text \<open>\<^verbatim>\<open>device_start\<close> has an empty body: it registers no item for the save state.\<close>

definition device_start :: "decobsmt_device \<Rightarrow> decobsmt_device" where
  "device_start s = s"

definition device_reset :: "decobsmt_device \<Rightarrow> decobsmt_device" where
  "device_reset s = s\<lparr>m_bsmt_latch := 0, m_bsmt_reset := 0, m_bsmt_comms := 0\<rparr>"

definition bsmt_reset_w :: "u8 \<Rightarrow> decobsmt_device \<Rightarrow> decobsmt_device" where
  "bsmt_reset_w data s =
     (let diff = data XOR m_bsmt_reset s;
          s1 = s\<lparr>m_bsmt_reset := data\<rparr>
      in if diff AND 0x80 \<noteq> 0 \<and> \<not> (data AND 0x80 \<noteq> 0)
         then s1\<lparr>bsmt_calls := bsmt_calls s1 @ [Bsmt_reset]\<rparr>
         else s1)"

definition bsmt0_w :: "u8 \<Rightarrow> decobsmt_device \<Rightarrow> decobsmt_device" where
  "bsmt0_w data s = s\<lparr>m_bsmt_latch := data\<rparr>"

definition bsmt1_w :: "u32 \<Rightarrow> u8 \<Rightarrow> decobsmt_device \<Rightarrow> decobsmt_device" where
  "bsmt1_w offset data s =
     s\<lparr>bsmt_calls := bsmt_calls s @
         [Bsmt_write_reg (offset XOR 0xff),
          Bsmt_write_data (push_bit 8 (ucast (m_bsmt_latch s)) OR ucast data),
          Ourcpu_set_input_line M6809_IRQ_LINE CLEAR_LINE]\<rparr>"

text \<open>\<open>status\<close> is what \<^verbatim>\<open>m_bsmt->read_status()\<close> returns.\<close>

definition bsmt_status_r :: "u32 \<Rightarrow> decobsmt_device \<Rightarrow> u8 \<times> decobsmt_device" where
  "bsmt_status_r status s = (ucast (push_bit 7 status), s)"

definition bsmt_comms_r :: "decobsmt_device \<Rightarrow> u8 \<times> decobsmt_device" where
  "bsmt_comms_r s = (m_bsmt_comms s, s)"

definition bsmt_comms_w :: "u8 \<Rightarrow> decobsmt_device \<Rightarrow> decobsmt_device" where
  "bsmt_comms_w data s = s\<lparr>m_bsmt_comms := data\<rparr>"


definition decobsmt_firq_interrupt :: "decobsmt_device \<Rightarrow> decobsmt_device" where
  "decobsmt_firq_interrupt s =
     s\<lparr>bsmt_calls := bsmt_calls s @ [Ourcpu_set_input_line M6809_FIRQ_LINE HOLD_LINE]\<rparr>"




subsection \<open>Save states of the board\<close>

text \<open>
  Modelled from the spec: the save-state machinery is the host's and not part of the
  sources at hand. The spec describes persisted state as a list of fields included in
  the serialization. A snapshot holds the registered items with their values; loading a
  snapshot into a device overwrites the registered items and leaves every other field as
  the device has it.
\<close>

fun item_get :: "decobsmt_item \<Rightarrow> decobsmt_device \<Rightarrow> u8" where
  "item_get ITEM_m_bsmt_latch s = m_bsmt_latch s"
| "item_get ITEM_m_bsmt_reset s = m_bsmt_reset s"
| "item_get ITEM_m_bsmt_comms s = m_bsmt_comms s"

fun item_set :: "decobsmt_item \<Rightarrow> u8 \<Rightarrow> decobsmt_device \<Rightarrow> decobsmt_device" where
  "item_set ITEM_m_bsmt_latch v s = s\<lparr>m_bsmt_latch := v\<rparr>"
| "item_set ITEM_m_bsmt_reset v s = s\<lparr>m_bsmt_reset := v\<rparr>"
| "item_set ITEM_m_bsmt_comms v s = s\<lparr>m_bsmt_comms := v\<rparr>"

definition state_save :: "decobsmt_device \<Rightarrow> (decobsmt_item \<times> u8) list" where
  "state_save s = map (\<lambda>i. (i, item_get i s)) (bsmt_save_items s)"

definition state_load :: "(decobsmt_item \<times> u8) list \<Rightarrow> decobsmt_device \<Rightarrow> decobsmt_device" where
  "state_load snap s = foldl (\<lambda>t (i, v). item_set i v t) s snap"

section \<open>DJ Boy (drivers/djboy.cpp)\<close>

text \<open>
  The driver state holds the registers of the driver, its four banks and three latches,
  the ROM regions and the input ports. The processors, the coin counters and the calls
  made on banks and latches are recorded in \<open>calls\<close>, in program order; banks and latches
  also carry their own state. \<open>m_scrollx\<close> and \<open>m_scrolly\<close> are declared in a header that
  is not part of the sources at hand; the handlers here only reset them. \<open>m_port_in i\<close>
  and \<open>m_port_dsw i\<close> are the current values of the input ports \<^verbatim>\<open>m_port_in[i]\<close> (named
  IN0, IN1, IN2) and \<^verbatim>\<open>m_port_dsw[i]\<close> (named DSW1, DSW2).
\<close>

datatype latch_id = SLAVELATCH | BEASTLATCH | SOUNDLATCH

datatype bank_id = MASTER_BANK | MASTER_BANK_L | SLAVE_BANK | SOUND_BANK

datatype cpu_id = MASTERCPU | SLAVECPU | SOUNDCPU | BEAST

datatype djboy_call =
  Latch_write latch_id u8
| Latch_read latch_id
| Latch_acknowledge latch_id
| Bank_set_entry bank_id nat
| Set_input_line cpu_id input_line line_state
| Set_input_line_and_vector cpu_id input_line line_state u8
| Coin_counter_w nat u8

datatype djboy_item =
  ITEM_m_videoreg | ITEM_m_scrollx | ITEM_m_scrolly
| ITEM_m_beast_p0 | ITEM_m_beast_p1 | ITEM_m_beast_p2 | ITEM_m_beast_p3

record djboy_state =
  m_videoreg :: u8
  m_scrollx :: nat
  m_scrolly :: nat
  m_bankxor :: u8
  m_beast_p0 :: u8
  m_beast_p1 :: u8
  m_beast_p2 :: u8
  m_beast_p3 :: u8
  m_masterbank :: memory_bank
  m_masterbank_l :: memory_bank
  m_slavebank :: memory_bank
  m_soundbank :: memory_bank
  m_slavelatch :: generic_latch_8
  m_beastlatch :: generic_latch_8
  m_soundlatch :: generic_latch_8
  m_port_in :: "nat \<Rightarrow> u8"
  m_port_dsw :: "nat \<Rightarrow> u8"
  memregion :: "rom_region \<Rightarrow> u8 list"
  calls :: "djboy_call list"
  save_items :: "djboy_item list"

subsection \<open>Calls on the banks and latches of the driver\<close>

fun the_bank :: "bank_id \<Rightarrow> djboy_state \<Rightarrow> memory_bank" where
  "the_bank MASTER_BANK s = m_masterbank s"
| "the_bank MASTER_BANK_L s = m_masterbank_l s"
| "the_bank SLAVE_BANK s = m_slavebank s"
| "the_bank SOUND_BANK s = m_soundbank s"

fun bank_update :: "bank_id \<Rightarrow> (memory_bank \<Rightarrow> memory_bank) \<Rightarrow> djboy_state \<Rightarrow> djboy_state" where
  "bank_update MASTER_BANK f s = s\<lparr>m_masterbank := f (m_masterbank s)\<rparr>"
| "bank_update MASTER_BANK_L f s = s\<lparr>m_masterbank_l := f (m_masterbank_l s)\<rparr>"
| "bank_update SLAVE_BANK f s = s\<lparr>m_slavebank := f (m_slavebank s)\<rparr>"
| "bank_update SOUND_BANK f s = s\<lparr>m_soundbank := f (m_soundbank s)\<rparr>"

fun the_latch :: "latch_id \<Rightarrow> djboy_state \<Rightarrow> generic_latch_8" where
  "the_latch SLAVELATCH s = m_slavelatch s"
| "the_latch BEASTLATCH s = m_beastlatch s"
| "the_latch SOUNDLATCH s = m_soundlatch s"

fun latch_update ::
  "latch_id \<Rightarrow> (generic_latch_8 \<Rightarrow> generic_latch_8) \<Rightarrow> djboy_state \<Rightarrow> djboy_state" where
  "latch_update SLAVELATCH f s = s\<lparr>m_slavelatch := f (m_slavelatch s)\<rparr>"
| "latch_update BEASTLATCH f s = s\<lparr>m_beastlatch := f (m_beastlatch s)\<rparr>"
| "latch_update SOUNDLATCH f s = s\<lparr>m_soundlatch := f (m_soundlatch s)\<rparr>"

definition do_call :: "djboy_call \<Rightarrow> djboy_state \<Rightarrow> djboy_state" where
  "do_call c s = s\<lparr>calls := calls s @ [c]\<rparr>"

text \<open>\<^verbatim>\<open>bank->set_entry(n)\<close>, \<^verbatim>\<open>latch->write(v)\<close>, \<^verbatim>\<open>latch->read()\<close>, \<^verbatim>\<open>latch->acknowledge_w()\<close>.\<close>

definition bank_set_entry :: "bank_id \<Rightarrow> nat \<Rightarrow> djboy_state \<Rightarrow> djboy_state" where
  "bank_set_entry b n s = do_call (Bank_set_entry b n) (bank_update b (set_entry n) s)"

definition generic_latch_write :: "latch_id \<Rightarrow> u8 \<Rightarrow> djboy_state \<Rightarrow> djboy_state" where
  "generic_latch_write l v s = do_call (Latch_write l v) (latch_update l (latch_write v) s)"

definition generic_latch_read :: "latch_id \<Rightarrow> djboy_state \<Rightarrow> u8 \<times> djboy_state" where
  "generic_latch_read l s =
     (fst (latch_read (the_latch l s)),
      do_call (Latch_read l) (latch_update l (\<lambda>x. snd (latch_read x)) s))"

definition generic_latch_acknowledge :: "latch_id \<Rightarrow> djboy_state \<Rightarrow> djboy_state" where
  "generic_latch_acknowledge l s =
     do_call (Latch_acknowledge l) (latch_update l latch_acknowledge s)"

text \<open>A read through the window of a \<^verbatim>\<open>bankr\<close> mapping, at an offset into the window.\<close>

definition bankr_read :: "djboy_state \<Rightarrow> bank_id \<Rightarrow> nat \<Rightarrow> u8 option" where
  "bankr_read s b off = bank_read (memregion s) (the_bank b s) off"

subsection \<open>Handlers\<close>

definition beast_status_r :: "djboy_state \<Rightarrow> u8 \<times> djboy_state" where
  "beast_status_r s =
     ((if pending_r (m_slavelatch s) then 0x0 else 0x4) OR
      (if pending_r (m_beastlatch s) then 0x8 else 0x0), s)"

definition trigger_nmi_on_mastercpu :: "u8 \<Rightarrow> djboy_state \<Rightarrow> djboy_state" where
  "trigger_nmi_on_mastercpu data s = do_call (Set_input_line MASTERCPU INPUT_LINE_NMI PULSE_LINE) s"

definition mastercpu_bankswitch_w :: "u8 \<Rightarrow> djboy_state \<Rightarrow> djboy_state" where
  "mastercpu_bankswitch_w data s =
     (let data = data XOR m_bankxor s
      in bank_set_entry MASTER_BANK_L 0 (bank_set_entry MASTER_BANK (unat data) s))"

definition slavecpu_bankswitch_w :: "u8 \<Rightarrow> djboy_state \<Rightarrow> djboy_state" where
  "slavecpu_bankswitch_w data s =
     (let s1 = s\<lparr>m_videoreg := data\<rparr>
      in if data AND 0xc \<noteq> 4 then bank_set_entry SLAVE_BANK (unat (data AND 0xf)) s1 else s1)"

definition coin_count_w :: "u8 \<Rightarrow> djboy_state \<Rightarrow> djboy_state" where
  "coin_count_w data s =
     do_call (Coin_counter_w 1 (data AND 2)) (do_call (Coin_counter_w 0 (data AND 1)) s)"

definition soundcpu_bankswitch_w :: "u8 \<Rightarrow> djboy_state \<Rightarrow> djboy_state" where
  "soundcpu_bankswitch_w data s = bank_set_entry SOUND_BANK (unat data) s"

definition beast_p0_r :: "djboy_state \<Rightarrow> u8 \<times> djboy_state" where
  "beast_p0_r s = (0, s)"

definition beast_p0_w :: "u8 \<Rightarrow> djboy_state \<Rightarrow> djboy_state" where
  "beast_p0_w data s =
     (let s1 = (if \<not> (BIT (m_beast_p0 s) 1 \<noteq> 0) \<and> BIT data 1 \<noteq> 0
                then generic_latch_write SLAVELATCH (m_beast_p1 s) s else s);
          s2 = (if BIT data 0 = 0 then generic_latch_acknowledge BEASTLATCH s1 else s1)
      in s2\<lparr>m_beast_p0 := data\<rparr>)"

definition beast_p1_r :: "djboy_state \<Rightarrow> u8 \<times> djboy_state" where
  "beast_p1_r s =
     (if BIT (m_beast_p0 s) 0 = 0 then generic_latch_read BEASTLATCH s else (0, s))"

definition beast_p1_w :: "u8 \<Rightarrow> djboy_state \<Rightarrow> djboy_state" where
  "beast_p1_w data s = s\<lparr>m_beast_p1 := data\<rparr>"

definition beast_p2_r :: "djboy_state \<Rightarrow> u8 \<times> djboy_state" where
  "beast_p2_r s =
     (let sel = drop_bit 2 (m_beast_p0 s) AND 3
      in if sel = 0 then (m_port_in s 1, s)
         else if sel = 1 then (m_port_in s 2, s)
         else if sel = 2 then (m_port_in s 0, s)
         else (0xff, s))"

definition beast_p2_w :: "u8 \<Rightarrow> djboy_state \<Rightarrow> djboy_state" where
  "beast_p2_w data s = s\<lparr>m_beast_p2 := data\<rparr>"

definition beast_p3_r :: "djboy_state \<Rightarrow> u8 \<times> djboy_state" where
  "beast_p3_r s =
     (let dsw1 = NOT (m_port_dsw s 0);
          dsw2 = NOT (m_port_dsw s 1);
          sel = drop_bit 5 (m_beast_p0 s) AND 3;
          dsw =
            (if sel = 0 then
               push_bit 3 (BIT dsw2 4) OR push_bit 2 (BIT dsw2 0) OR push_bit 1 (BIT dsw1 4) OR BIT dsw1 0
             else if sel = 1 then
               push_bit 3 (BIT dsw2 5) OR push_bit 2 (BIT dsw2 1) OR push_bit 1 (BIT dsw1 5) OR BIT dsw1 1
             else if sel = 2 then
               push_bit 3 (BIT dsw2 6) OR push_bit 2 (BIT dsw2 2) OR push_bit 1 (BIT dsw1 6) OR BIT dsw1 2
             else if sel = 3 then
               push_bit 3 (BIT dsw2 7) OR push_bit 2 (BIT dsw2 3) OR push_bit 1 (BIT dsw1 7) OR BIT dsw1 3
             else 0)
      in (push_bit 4 dsw OR
          (if pending_r (m_beastlatch s) then 0x0 else 0x4) OR
          (if pending_r (m_slavelatch s) then 0x8 else 0x0), s))"

definition beast_p3_w :: "u8 \<Rightarrow> djboy_state \<Rightarrow> djboy_state" where
  "beast_p3_w data s =
     do_call (Set_input_line SLAVECPU INPUT_LINE_RESET
                (if data AND 2 \<noteq> 0 then CLEAR_LINE else ASSERT_LINE))
       (s\<lparr>m_beast_p3 := data\<rparr>)"

definition djboy_scanline :: "int \<Rightarrow> djboy_state \<Rightarrow> djboy_state" where
  "djboy_scanline param s =
     (let scanline = param;
          s1 = (if scanline = 240
                then do_call (Set_input_line_and_vector MASTERCPU INPUT_LINE_IRQ0 HOLD_LINE 0xfd) s
                else s)
      in if scanline = 64
         then do_call (Set_input_line_and_vector MASTERCPU INPUT_LINE_IRQ0 HOLD_LINE 0xff) s1
         else s1)"

subsection \<open>Machine configuration, start and reset\<close>

text \<open>
  \<^verbatim>\<open>MACHINE_CONFIG_START(djboy_state::djboy)\<close> adds the three latches; only the beastlatch is
  given \<^verbatim>\<open>MCFG_GENERIC_LATCH_SEPARATE_ACKNOWLEDGE(true)\<close>. The banks come into being with
  the address maps, without entries. Registers the configuration does not touch keep the
  arbitrary contents of \<open>s\<close>.
\<close>

definition djboy :: "djboy_state \<Rightarrow> djboy_state" where
  "djboy s =
     s\<lparr>m_masterbank := bank_add, m_masterbank_l := bank_add,
       m_slavebank := bank_add, m_soundbank := bank_add,
       m_slavelatch := latch_add False,
       m_beastlatch := latch_add True,
       m_soundlatch := latch_add False,
       calls := [], save_items := []\<rparr>"

definition save_item :: "djboy_item \<Rightarrow> djboy_state \<Rightarrow> djboy_state" where
  "save_item i s = s\<lparr>save_items := save_items s @ [i]\<rparr>"

definition machine_start :: "djboy_state \<Rightarrow> djboy_state" where
  "machine_start s =
     (let MASTER = REGION_mastercpu; SLAVE = REGION_slavecpu; SOUND = REGION_soundcpu;
          s1 = bank_update MASTER_BANK (configure_entries 0 32 (MASTER, 0x00000) 0x2000) s;
          s2 = bank_update SLAVE_BANK (configure_entries 0 4 (SLAVE, 0x00000) 0x4000) s1;
          s3 = bank_update SLAVE_BANK (configure_entries 8 8 (SLAVE, 0x10000) 0x4000) s2;
          s4 = bank_update SOUND_BANK (configure_entries 0 8 (SOUND, 0x00000) 0x4000) s3;
          s5 = bank_update MASTER_BANK_L (configure_entry 0 (MASTER, 0x08000)) s4
      in save_item ITEM_m_beast_p3 (save_item ITEM_m_beast_p2 (save_item ITEM_m_beast_p1
           (save_item ITEM_m_beast_p0 (save_item ITEM_m_scrolly (save_item ITEM_m_scrollx
             (save_item ITEM_m_videoreg s5)))))))"

definition machine_reset :: "djboy_state \<Rightarrow> djboy_state" where
  "machine_reset s = s\<lparr>m_videoreg := 0, m_scrollx := 0, m_scrolly := 0\<rparr>"

definition init_djboy :: "djboy_state \<Rightarrow> djboy_state" where
  "init_djboy s = s\<lparr>m_bankxor := 0x00\<rparr>"

definition init_djboyj :: "djboy_state \<Rightarrow> djboy_state" where
  "init_djboyj s = s\<lparr>m_bankxor := 0x1f\<rparr>"

subsection \<open>Address map of the master CPU\<close>

datatype handler = AM_ROM | AM_RAM | AM_BANKR bank_id | AM_PANDORA_SPRITERAM

text \<open>\<^verbatim>\<open>mastercpu_am\<close>: the handler of an address and the first address of its range.\<close>

definition mastercpu_am :: "nat \<Rightarrow> (nat \<times> handler) option" where
  "mastercpu_am a =
     (if a \<le> 0x7fff then Some (0x0000, AM_ROM)
      else if a \<le> 0xafff then Some (0x8000, AM_BANKR MASTER_BANK_L)
      else if a \<le> 0xbfff then Some (0xb000, AM_PANDORA_SPRITERAM)
      else if a \<le> 0xdfff then Some (0xc000, AM_BANKR MASTER_BANK)
      else if a \<le> 0xefff then Some (0xe000, AM_RAM)
      else if a \<le> 0xf7ff then Some (0xf000, AM_RAM)
      else if a \<le> 0xffff then Some (0xf800, AM_RAM)
      else None)"

subsection \<open>Accesses of the four processors\<close>

text \<open>
  The port maps bind I/O ports of the master, slave and sound CPU and the four ports of
  the Beast to the handlers above and to the latches; \<open>step\<close> performs one access on the
  state (the byte that a read returns goes to the processor). The scroll registers
  (slave ports 0x06 and 0x08) have their handlers in a file that is not part of the
  sources at hand and are left out.
\<close>

datatype access =
  Master_port00_w u8
| Slave_port00_w u8
| Slave_port02_w u8
| Slave_port04_r
| Slave_port04_w u8
| Slave_port0a_w u8
| Slave_port0c_r
| Slave_port0e_w u8
| Sound_port00_w u8
| Sound_port04_r
| Beast_p0_r | Beast_p0_w u8
| Beast_p1_r | Beast_p1_w u8
| Beast_p2_r | Beast_p2_w u8
| Beast_p3_r | Beast_p3_w u8
| Scanline int
| Machine_reset

fun step :: "access \<Rightarrow> djboy_state \<Rightarrow> djboy_state" where
  "step (Master_port00_w d) s = mastercpu_bankswitch_w d s"
| "step (Slave_port00_w d) s = slavecpu_bankswitch_w d s"
| "step (Slave_port02_w d) s = generic_latch_write SOUNDLATCH d s"
| "step Slave_port04_r s = snd (generic_latch_read SLAVELATCH s)"
| "step (Slave_port04_w d) s = generic_latch_write BEASTLATCH d s"
| "step (Slave_port0a_w d) s = trigger_nmi_on_mastercpu d s"
| "step Slave_port0c_r s = snd (beast_status_r s)"
| "step (Slave_port0e_w d) s = coin_count_w d s"
| "step (Sound_port00_w d) s = soundcpu_bankswitch_w d s"
| "step Sound_port04_r s = snd (generic_latch_read SOUNDLATCH s)"
| "step Beast_p0_r s = snd (beast_p0_r s)"
| "step (Beast_p0_w d) s = beast_p0_w d s"
| "step Beast_p1_r s = snd (beast_p1_r s)"
| "step (Beast_p1_w d) s = beast_p1_w d s"
| "step Beast_p2_r s = snd (beast_p2_r s)"
| "step (Beast_p2_w d) s = beast_p2_w d s"
| "step Beast_p3_r s = snd (beast_p3_r s)"
| "step (Beast_p3_w d) s = beast_p3_w d s"
| "step (Scanline n) s = djboy_scanline n s"
| "step Machine_reset s = machine_reset s"

fun run :: "access list \<Rightarrow> djboy_state \<Rightarrow> djboy_state" where
  "run [] s = s"
| "run (a # as) s = run as (step a s)"



subsection \<open>Games\<close>

text \<open>
  The \<^verbatim>\<open>GAME\<close> table: the sets \<^verbatim>\<open>djboy\<close> and \<^verbatim>\<open>djboya\<close> are initialised by
  \<^verbatim>\<open>DRIVER_INIT_MEMBER(djboy_state,djboy)\<close>, the set \<^verbatim>\<open>djboyj\<close> by
  \<^verbatim>\<open>DRIVER_INIT_MEMBER(djboy_state,djboyj)\<close>.
\<close>

datatype game = GAME_djboy | GAME_djboya | GAME_djboyj

fun driver_init :: "game \<Rightarrow> djboy_state \<Rightarrow> djboy_state" where
  "driver_init GAME_djboy s = init_djboy s"
| "driver_init GAME_djboya s = init_djboy s"
| "driver_init GAME_djboyj s = init_djboyj s"

subsection \<open>ROM regions\<close>

text \<open>
  The \<^verbatim>\<open>ROM_START\<close> blocks of the three sets, for the regions the banks read. Each
  \<^verbatim>\<open>ROM_LOAD(name, offset, length, ...)\<close> puts \<open>length\<close> bytes of a file at \<open>offset\<close> of its
  region; \<open>files\<close> gives the content of every file. The master region of every set has
  a file of its own in its lower half (\<^verbatim>\<open>bs64.4b\<close>, \<^verbatim>\<open>bs19s.rom\<close>, \<^verbatim>\<open>bs12.4b\<close>) and the
  same file \<^verbatim>\<open>bs100.4d\<close> in its upper half. A region is taken to hold zeros before its
  files are loaded; the loads cover it whole.
\<close>

datatype rom_file =
  BS64_4B | BS19S_ROM | BS12_4B | BS100_4D
| BS65_5Y | BS15S_ROM | BS13_5Y | BS101_6W
| BS200_8C

definition rom_load :: "u8 list \<Rightarrow> nat \<Rightarrow> nat \<Rightarrow> u8 list \<Rightarrow> u8 list" where
  "rom_load file offset len region =
     take offset region @ take len file @ drop (offset + len) region"

fun mastercpu_rom :: "game \<Rightarrow> rom_file" where
  "mastercpu_rom GAME_djboy = BS64_4B"
| "mastercpu_rom GAME_djboya = BS19S_ROM"
| "mastercpu_rom GAME_djboyj = BS12_4B"

fun slavecpu_rom :: "game \<Rightarrow> rom_file" where
  "slavecpu_rom GAME_djboy = BS65_5Y"
| "slavecpu_rom GAME_djboya = BS15S_ROM"
| "slavecpu_rom GAME_djboyj = BS13_5Y"

fun rom_start :: "game \<Rightarrow> (rom_file \<Rightarrow> u8 list) \<Rightarrow> rom_region \<Rightarrow> u8 list" where
  "rom_start g files REGION_mastercpu =
     rom_load (files BS100_4D) 0x20000 0x20000
       (rom_load (files (mastercpu_rom g)) 0x00000 0x20000 (replicate 0x40000 0))"
| "rom_start g files REGION_slavecpu =
     rom_load (files BS101_6W) 0x10000 0x20000
       (rom_load (files (slavecpu_rom g)) 0x00000 0x10000 (replicate 0x30000 0))"
| "rom_start g files REGION_soundcpu =
     rom_load (files BS200_8C) 0x00000 0x20000 (replicate 0x20000 0)"

text \<open>
  The constructor of the sound board binds its two child devices and initialises no
  register: a new board has made no call and registered no item.
\<close>

definition decobsmt_device_new :: "decobsmt_device \<Rightarrow> decobsmt_device" where
  "decobsmt_device_new d = d\<lparr>bsmt_calls := [], bsmt_save_items := []\<rparr>"

section \<open>What the handlers leave alone\<close>

text \<open>
  The part of the driver state that is fixed once the machine has started: the entries
  of the banks, the mode of the latches, the ROM regions and the bank XOR of the game.
\<close>

definition wiring ::
  "djboy_state \<Rightarrow>
     ((nat \<Rightarrow> (rom_region \<times> nat) option) \<times> (nat \<Rightarrow> (rom_region \<times> nat) option) \<times>
      (nat \<Rightarrow> (rom_region \<times> nat) option) \<times> (nat \<Rightarrow> (rom_region \<times> nat) option)) \<times>
     (bool \<times> bool \<times> bool) \<times> (rom_region \<Rightarrow> u8 list) \<times> u8" where
  "wiring s =
     ((entries (m_masterbank s), entries (m_masterbank_l s),
       entries (m_slavebank s), entries (m_soundbank s)),
      (separate_acknowledge (m_slavelatch s), separate_acknowledge (m_beastlatch s),
       separate_acknowledge (m_soundlatch s)),
      memregion s, m_bankxor s)"

section \<open>Concrete machines\<close>

text \<open>
  Machines to run the model on. The master ROM of \<open>demo_rom\<close> holds in every byte the
  number of its 0x2000-byte bank, its slave ROM the number of the 0x4000-byte page. In
  \<open>demo_files\<close> the file \<^verbatim>\<open>bs100.4d\<close>, which fills the banks 16..31 of every set, holds in
  every byte the number of its bank, and the files of the lower halves hold one byte
  each: 0xaa in \<^verbatim>\<open>bs64.4b\<close>, 0xab in \<^verbatim>\<open>bs19s.rom\<close>, 0xbb in \<^verbatim>\<open>bs12.4b\<close>.
\<close>

definition demo_rom :: "rom_region \<Rightarrow> u8 list" where
  "demo_rom r =
     (case r of
        REGION_mastercpu \<Rightarrow> map (\<lambda>a. of_nat (a div 0x2000)) [0..<0x40000]
      | REGION_slavecpu \<Rightarrow> map (\<lambda>a. of_nat (a div 0x4000)) [0..<0x30000]
      | REGION_soundcpu \<Rightarrow> replicate 0x20000 0)"

definition demo_files :: "rom_file \<Rightarrow> u8 list" where
  "demo_files f =
     (case f of
        BS64_4B \<Rightarrow> replicate 0x20000 0xaa
      | BS19S_ROM \<Rightarrow> replicate 0x20000 0xab
      | BS12_4B \<Rightarrow> replicate 0x20000 0xbb
      | BS100_4D \<Rightarrow> map (\<lambda>a. of_nat (16 + a div 0x2000)) [0..<0x20000]
      | BS65_5Y \<Rightarrow> replicate 0x10000 0
      | BS15S_ROM \<Rightarrow> replicate 0x10000 0
      | BS13_5Y \<Rightarrow> replicate 0x10000 0
      | BS101_6W \<Rightarrow> replicate 0x20000 0
      | BS200_8C \<Rightarrow> replicate 0x20000 0)"

definition demo_machine :: "(rom_region \<Rightarrow> u8 list) \<Rightarrow> djboy_state" where
  "demo_machine rom =
     \<lparr>m_videoreg = 0, m_scrollx = 0, m_scrolly = 0, m_bankxor = 0,
      m_beast_p0 = 0, m_beast_p1 = 0x5a, m_beast_p2 = 0, m_beast_p3 = 0,
      m_masterbank = bank_add, m_masterbank_l = bank_add,
      m_slavebank = bank_add, m_soundbank = bank_add,
      m_slavelatch = latch_add False, m_beastlatch = latch_add False,
      m_soundlatch = latch_add False,
      m_port_in = (\<lambda>i. if i = 0 then 0xf0 else if i = 1 then 0xf1 else 0xf2),
      m_port_dsw = (\<lambda>i. if i = 0 then 0x30 else 0x80),
      memregion = rom, calls = [], save_items = []\<rparr>"

definition demo_board :: decobsmt_device where
  "demo_board =
     \<lparr>m_bsmt_latch = 0, m_bsmt_reset = 0x80, m_bsmt_comms = 0,
      bsmt_calls = [], bsmt_save_items = []\<rparr>"



section \<open>Auxiliary facts\<close>

lemmas handler_defs =
  mastercpu_bankswitch_w_def slavecpu_bankswitch_w_def soundcpu_bankswitch_w_def
  trigger_nmi_on_mastercpu_def coin_count_w_def beast_status_r_def
  beast_p0_r_def beast_p0_w_def beast_p1_r_def beast_p1_w_def
  beast_p2_r_def beast_p2_w_def beast_p3_r_def beast_p3_w_def
  djboy_scanline_def machine_reset_def
  bank_set_entry_def generic_latch_write_def generic_latch_read_def
  generic_latch_acknowledge_def do_call_def

lemmas device_defs =
  latch_write_def latch_read_def latch_acknowledge_def pending_r_def set_entry_def

lemma wiring_step: "wiring (step a s) = wiring s"
  by (cases a) (simp_all add: wiring_def handler_defs device_defs Let_def)

lemma wiring_run: "wiring (run as s) = wiring s"
  by (induction as arbitrary: s) (simp_all add: wiring_step)

lemma machine_start_master_entries:
  "entries (m_masterbank (machine_start (djboy s0))) n =
     (if n < 32 then Some (REGION_mastercpu, n * 0x2000) else None)"
  by (simp add: machine_start_def djboy_def Let_def save_item_def configure_entries_def
      configure_entry_def bank_add_def)

lemma machine_start_sound_entries:
  "entries (m_soundbank (machine_start (djboy s0))) n =
     (if n < 8 then Some (REGION_soundcpu, n * 0x4000) else None)"
  by (simp add: machine_start_def djboy_def Let_def save_item_def configure_entries_def
      configure_entry_def bank_add_def)

lemma machine_start_slave_entries:
  "entries (m_slavebank (machine_start (djboy s0))) n =
     (if n < 4 then Some (REGION_slavecpu, n * 0x4000)
      else if 8 \<le> n \<and> n < 16 then Some (REGION_slavecpu, 0x10000 + (n - 8) * 0x4000)
      else None)"
  by (simp add: machine_start_def djboy_def Let_def save_item_def configure_entries_def
      configure_entry_def bank_add_def)

lemma machine_start_wiring:
  "memregion (machine_start (djboy s0)) = memregion s0"
  "m_bankxor (machine_start (djboy s0)) = m_bankxor s0"
  "separate_acknowledge (m_beastlatch (machine_start (djboy s0)))"
  "\<not> separate_acknowledge (m_slavelatch (machine_start (djboy s0)))"
  by (simp_all add: machine_start_def djboy_def Let_def save_item_def latch_add_def)

lemma bank_select_read:
  assumes "i < n" and "off < sz" and "base + n * sz \<le> length (mem r)"
  shows "bank_read mem (set_entry i (configure_entries 0 n (r, base) sz b)) off =
           Some (mem r ! (base + i * sz + off))"
proof -
  have "Suc i * sz \<le> n * sz"
    using assms(1) by (intro mult_le_mono1) simp
  then have "base + i * sz + off < length (mem r)" using assms by simp
  then show ?thesis
    using assms(1) by (simp add: bank_read_def set_entry_def configure_entries_def)
qed

lemma bank_select_read_from:
  assumes "start \<le> i" and "i < start + n" and "off < sz"
    and "base + n * sz \<le> length (mem r)"
  shows "bank_read mem (set_entry i (configure_entries start n (r, base) sz b)) off =
           Some (mem r ! (base + (i - start) * sz + off))"
proof -
  have "Suc (i - start) * sz \<le> n * sz"
    using assms(1,2) by (intro mult_le_mono1) simp
  then have "base + (i - start) * sz + off < length (mem r)" using assms(3,4) by simp
  then show ?thesis
    using assms(1,2) by (simp add: bank_read_def set_entry_def configure_entries_def)
qed

lemma run_slave_entries:
  "entries (m_slavebank (run as (machine_start (djboy s0)))) n =
     (if n < 4 then Some (REGION_slavecpu, n * 0x4000)
      else if 8 \<le> n \<and> n < 16 then Some (REGION_slavecpu, 0x10000 + (n - 8) * 0x4000)
      else None)"
proof -
  have "wiring (run as (machine_start (djboy s0))) = wiring (machine_start (djboy s0))"
    by (rule wiring_run)
  then have "entries (m_slavebank (run as (machine_start (djboy s0)))) =
             entries (m_slavebank (machine_start (djboy s0)))"
    by (simp add: wiring_def)
  then show ?thesis by (simp only: machine_start_slave_entries)
qed

lemma run_sound_entries:
  "entries (m_soundbank (run as (machine_start (djboy s0)))) n =
     (if n < 8 then Some (REGION_soundcpu, n * 0x4000) else None)"
proof -
  have "wiring (run as (machine_start (djboy s0))) = wiring (machine_start (djboy s0))"
    by (rule wiring_run)
  then have "entries (m_soundbank (run as (machine_start (djboy s0)))) =
             entries (m_soundbank (machine_start (djboy s0)))"
    by (simp add: wiring_def)
  then show ?thesis by (simp only: machine_start_sound_entries)
qed

lemma run_master_entries:
  "entries (m_masterbank (run as (machine_start (djboy s0)))) n =
     (if n < 32 then Some (REGION_mastercpu, n * 0x2000) else None)"
proof -
  have "wiring (run as (machine_start (djboy s0))) = wiring (machine_start (djboy s0))"
    by (rule wiring_run)
  then have "entries (m_masterbank (run as (machine_start (djboy s0)))) =
             entries (m_masterbank (machine_start (djboy s0)))"
    by (simp add: wiring_def)
  then show ?thesis by (simp add: machine_start_master_entries)
qed

lemma run_memregion:
  "memregion (run as (machine_start (djboy s0))) = memregion s0"
proof -
  have "wiring (run as (machine_start (djboy s0))) = wiring (machine_start (djboy s0))"
    by (rule wiring_run)
  then show ?thesis by (simp add: wiring_def machine_start_wiring)
qed

lemma master_window_read:
  assumes "length (memregion s0 REGION_mastercpu) = 0x40000" and "i < 32" and "off < 0x2000"
  shows "bankr_read (bank_set_entry MASTER_BANK i (run as (machine_start (djboy s0))))
           MASTER_BANK off = Some (memregion s0 REGION_mastercpu ! (i * 0x2000 + off))"
proof -
  have "i * 0x2000 + off < 0x40000" using assms(2,3) by simp
  then show ?thesis
    using assms
    by (simp add: bankr_read_def bank_set_entry_def do_call_def bank_read_def set_entry_def
        run_master_entries run_memregion)
qed

lemma sound_window_read:
  assumes "length (memregion s0 REGION_soundcpu) = 0x20000" and "i < 8" and "off < 0x4000"
  shows "bankr_read (bank_set_entry SOUND_BANK i (run as (machine_start (djboy s0))))
           SOUND_BANK off = Some (memregion s0 REGION_soundcpu ! (i * 0x4000 + off))"
proof -
  have "i * 0x4000 + off < 0x20000" using assms(2,3) by simp
  then show ?thesis
    using assms
    by (simp add: bankr_read_def bank_set_entry_def do_call_def bank_read_def set_entry_def
        run_sound_entries run_memregion)
qed

lemma slave_window_read_low:
  assumes "length (memregion s0 REGION_slavecpu) = 0x30000" and "i < 4" and "off < 0x4000"
  shows "bankr_read (bank_set_entry SLAVE_BANK i (run as (machine_start (djboy s0))))
           SLAVE_BANK off = Some (memregion s0 REGION_slavecpu ! (i * 0x4000 + off))"
proof -
  have "i * 0x4000 + off < 0x30000" using assms(2,3) by simp
  then show ?thesis
    using assms
    by (simp add: bankr_read_def bank_set_entry_def do_call_def bank_read_def set_entry_def
        run_slave_entries run_memregion)
qed

lemma slave_window_read_high:
  assumes "length (memregion s0 REGION_slavecpu) = 0x30000" and "8 \<le> i" and "i < 16"
    and "off < 0x4000"
  shows "bankr_read (bank_set_entry SLAVE_BANK i (run as (machine_start (djboy s0))))
           SLAVE_BANK off =
         Some (memregion s0 REGION_slavecpu ! (0x10000 + (i - 8) * 0x4000 + off))"
proof -
  have "0x10000 + (i - 8) * 0x4000 + off < 0x30000" using assms(2,3,4) by simp
  then show ?thesis
    using assms
    by (simp add: bankr_read_def bank_set_entry_def do_call_def bank_read_def set_entry_def
        run_slave_entries run_memregion)
qed

lemma and_0x80_iff: "(x AND 0x80 \<noteq> 0) = bit (x::u8) 7"
proof -
  have "(x AND 2 ^ 7 \<noteq> 0) = bit x 7" unfolding and_exp_eq_0_iff_not_bit by blast
  then show ?thesis by simp
qed


lemma BIT_neq0_iff: "(BIT x n \<noteq> 0) = bit x n"
  by (simp add: BIT_def and_one_eq bit_iff_odd_drop_bit mod_2_eq_odd)

lemma BIT_eq0_iff: "(BIT x n = 0) = (\<not> bit x n)"
  using BIT_neq0_iff [of x n] by blast

lemma sel_unat: "unat (drop_bit 2 (x::u8) AND 3) = unat x div 4 mod 4"
proof -
  have m: "(3::nat) = mask 2" by (simp add: mask_eq_exp_minus_1)
  have "unat (drop_bit 2 x AND 3) = drop_bit 2 (unat x) AND 3"
    by (simp add: unsigned_and_eq unat_drop_bit_eq)
  also have "\<dots> = take_bit 2 (drop_bit 2 (unat x))"
    unfolding m by (simp add: take_bit_eq_mask)
  also have "\<dots> = unat x div 4 mod 4"
    by (simp add: take_bit_eq_mod drop_bit_eq_div)
  finally show ?thesis .
qed

lemma xor_1f_less: "unat (d::u8) < 32 \<Longrightarrow> unat (d XOR 0x1f) < 32"
proof -
  assume a: "unat d < 32"
  have e: "unat (d XOR 0x1f) = unat d XOR 31" by (simp add: unsigned_xor_eq)
  have t1: "take_bit 5 (unat d) = unat d" using a by (simp add: take_bit_nat_eq_self)
  have t2: "take_bit 5 (31::nat) = 31" by (simp add: take_bit_nat_eq_self)
  have "take_bit 5 (unat d XOR 31) = unat d XOR 31"
    by (simp only: take_bit_xor t1 t2)
  moreover have "take_bit 5 (unat d XOR 31) < 2 ^ 5" by (rule take_bit_nat_less_exp)
  ultimately show ?thesis using e by simp
qed

lemma and_f_cases:
  assumes "(data::u8) AND 0xc \<noteq> 4"
  shows "unat (data AND 0xf) < 4 \<or> (8 \<le> unat (data AND 0xf) \<and> unat (data AND 0xf) < 16)"
proof -
  define v where "v = data AND 0xf"
  have A: "data AND 0xc = v AND 0xc" by (simp add: v_def and.assoc)
  have "v \<le> 0xf" unfolding v_def by (rule word_and_le1)
  then have le: "unat v < 16" by (simp add: word_le_nat_alt)
  have v: "v = of_nat (unat v)" by simp
  have "\<not> (4 \<le> unat v \<and> unat v \<le> 7)"
  proof
    assume "4 \<le> unat v \<and> unat v \<le> 7"
    then have "unat v = 4 \<or> unat v = 5 \<or> unat v = 6 \<or> unat v = 7" by arith
    then have "v = 4 \<or> v = 5 \<or> v = 6 \<or> v = 7" using v by (metis of_nat_numeral)
    then have "v AND 0xc = 4" by auto
    with A assms show False by simp
  qed
  with le show ?thesis unfolding v_def by arith
qed

lemma bsmt_reset_w_calls:
  "bsmt_calls (bsmt_reset_w data s) =
     bsmt_calls s @ (if bit (m_bsmt_reset s) 7 \<and> \<not> bit data 7 then [Bsmt_reset] else [])"
  by (auto simp add: bsmt_reset_w_def Let_def and_0x80_iff bit_xor_iff)

lemma bsmt_reset_w_reg: "m_bsmt_reset (bsmt_reset_w data s) = data"
  by (simp add: bsmt_reset_w_def Let_def)

text \<open>
  The slave CPU's bank-select port keeps to the configured entries of its bank.
\<close>

lemma slavecpu_bankswitch_w_configured:
  assumes "s = run as (machine_start (djboy s0))"
    and "entry_configured (m_slavebank s) (curentry (m_slavebank s))"
  shows "entry_configured (m_slavebank (slavecpu_bankswitch_w data s))
           (curentry (m_slavebank (slavecpu_bankswitch_w data s)))"
proof -
  have "wiring s = wiring (machine_start (djboy s0))"
    unfolding assms(1) by (rule wiring_run)
  then have e: "entries (m_slavebank s) = entries (m_slavebank (machine_start (djboy s0)))"
    by (simp add: wiring_def)
  show ?thesis
  proof (cases "data AND 0xc \<noteq> 4")
    case True
    from and_f_cases [OF True] show ?thesis
      using True
      by (auto simp add: slavecpu_bankswitch_w_def bank_set_entry_def do_call_def set_entry_def
          entry_configured_def e machine_start_slave_entries Let_def)
  next
    case False
    then show ?thesis
      using assms(2)
      by (simp add: slavecpu_bankswitch_w_def entry_configured_def Let_def)
  qed
qed

lemma driver_init_djboy: "driver_init g (djboy s) = djboy (driver_init g s)"
  by (cases g) (simp_all add: init_djboy_def init_djboyj_def djboy_def)

lemma driver_init_fields:
  "memregion (driver_init g s) = memregion s"
  "m_bankxor (driver_init g s) = (if g = GAME_djboyj then 0x1f else 0x00)"
  by (cases g; simp add: init_djboy_def init_djboyj_def)+

lemma run_bankxor:
  "m_bankxor (run as (machine_start (driver_init g (djboy s0)))) =
     (if g = GAME_djboyj then 0x1f else 0x00)"
proof -
  have "wiring (run as (machine_start (djboy (driver_init g s0)))) =
        wiring (machine_start (djboy (driver_init g s0)))"
    by (rule wiring_run)
  then have "m_bankxor (run as (machine_start (djboy (driver_init g s0)))) =
             m_bankxor (driver_init g s0)"
    by (simp add: wiring_def machine_start_wiring)
  then show ?thesis by (simp add: driver_init_djboy driver_init_fields)
qed

lemma mastercpu_bankswitch_w_is_set_entry:
  "mastercpu_bankswitch_w data s =
     bank_set_entry MASTER_BANK_L 0 (bank_set_entry MASTER_BANK (unat (data XOR m_bankxor s)) s)"
  by (simp add: mastercpu_bankswitch_w_def Let_def)

lemma master_bank_l_frame:
  "bankr_read (bank_set_entry MASTER_BANK_L n s) MASTER_BANK off = bankr_read s MASTER_BANK off"
  by (simp add: bankr_read_def bank_set_entry_def do_call_def)

lemma bankswitch_window_read:
  assumes "length (memregion s0 REGION_mastercpu) = 0x40000"
    and "unat (data XOR (if g = GAME_djboyj then 0x1f else 0x00)) < 32" and "off < 0x2000"
  shows "bankr_read (mastercpu_bankswitch_w data (run as (machine_start (driver_init g (djboy s0)))))
           MASTER_BANK off =
         Some (memregion s0 REGION_mastercpu !
                (unat (data XOR (if g = GAME_djboyj then 0x1f else 0x00)) * 0x2000 + off))"
proof -
  have len: "length (memregion (driver_init g s0) REGION_mastercpu) = 0x40000"
    using assms(1) by (simp add: driver_init_fields)
  show ?thesis
    unfolding mastercpu_bankswitch_w_is_set_entry master_bank_l_frame run_bankxor
    unfolding driver_init_djboy
    using master_window_read [OF len assms(2) assms(3), of as]
    by (simp add: driver_init_fields)
qed






lemma rom_start_master_length:
  "length (files (mastercpu_rom g)) = 0x20000 \<Longrightarrow> length (files BS100_4D) = 0x20000 \<Longrightarrow>
     length (rom_start g files REGION_mastercpu) = 0x40000"
  by (simp add: rom_load_def)

lemma rom_start_master_low:
  "length (files (mastercpu_rom g)) = 0x20000 \<Longrightarrow> a < 0x20000 \<Longrightarrow>
     rom_start g files REGION_mastercpu ! a = files (mastercpu_rom g) ! a"
  by (simp add: rom_load_def nth_append)

lemma rom_start_master_high:
  "length (files (mastercpu_rom g)) = 0x20000 \<Longrightarrow> length (files BS100_4D) = 0x20000 \<Longrightarrow>
     0x20000 \<le> a \<Longrightarrow> a < 0x40000 \<Longrightarrow>
     rom_start g files REGION_mastercpu ! a = files BS100_4D ! (a - 0x20000)"
  by (simp add: rom_load_def nth_append)

lemma sel_eq_iff:
  "(drop_bit 2 (x::u8) AND 3 = 0) = (unat x div 4 mod 4 = 0)"
  "(drop_bit 2 (x::u8) AND 3 = 1) = (unat x div 4 mod 4 = 1)"
  "(drop_bit 2 (x::u8) AND 3 = 2) = (unat x div 4 mod 4 = 2)"
  "(drop_bit 2 (x::u8) AND 3 = 3) = (unat x div 4 mod 4 = 3)"
  using sel_unat [of x] by (simp_all add: word_unat_eq_iff)

section \<open>The claims\<close>

text \<open>
  C1. A write of \<open>new\<close> to the reset-control register of the BSMT board, whose stored
  previous value is \<open>m_bsmt_reset s\<close>, calls \<open>reset()\<close> on the BSMT chip exactly once when
  bit 7 of the previous value is 1 and bit 7 of \<open>new\<close> is 0, and makes no call on any
  other transition of bit 7; afterwards the stored value is \<open>new\<close>. From the reset state
  of the board, writing 0x80 and then 0x00 makes exactly one reset call.
\<close>

theorem bsmt_reset_w_falling_edge:
  "bsmt_calls (bsmt_reset_w new s) =
     bsmt_calls s @ (if bit (m_bsmt_reset s) 7 \<and> \<not> bit new 7 then [Bsmt_reset] else [])
   \<and> count_list (bsmt_calls (bsmt_reset_w new s)) Bsmt_reset =
       count_list (bsmt_calls s) Bsmt_reset +
         (if bit (m_bsmt_reset s) 7 \<and> \<not> bit new 7 then 1 else 0)
   \<and> m_bsmt_reset (bsmt_reset_w new s) = new
   \<and> m_bsmt_reset (device_reset s) = 0
   \<and> bsmt_calls (bsmt_reset_w 0x00 (bsmt_reset_w 0x80 (device_reset s))) =
       bsmt_calls (device_reset s) @ [Bsmt_reset]"
  by (simp add: bsmt_reset_w_calls bsmt_reset_w_reg device_reset_def)

theorem bsmt_reset_w_falling_edge_witness:
  "bsmt_calls (bsmt_reset_w 0x00 demo_board) = [Bsmt_reset]
   \<and> bsmt_calls (bsmt_reset_w 0xff demo_board) = []
   \<and> bsmt_calls (bsmt_reset_w 0x80 (device_reset demo_board)) = []
   \<and> bsmt_calls (bsmt_reset_w 0x00 (bsmt_reset_w 0x80 (device_reset demo_board))) = [Bsmt_reset]"
  using bsmt_reset_w_falling_edge [of "0x00" demo_board]
    bsmt_reset_w_falling_edge [of "0xff" demo_board]
    bsmt_reset_w_falling_edge [of "0x80" "device_reset demo_board"]
  by (simp add: demo_board_def device_reset_def)

text \<open>
  C2 (as amended). An entry \<open>i\<close> that \<^verbatim>\<open>configure_entries(start, n, base, bank_size)\<close> has
  configured reads, after it is selected, at a window offset \<open>off\<close> within the bank the
  byte \<open>base[(i - start) * bank_size + off]\<close>. For a bank configured from entry 0 at the
  base of its backing store this is \<open>backing[i * bank_size + off]\<close>: so it is for the
  master bank of DJ Boy (32 entries of 0x2000 bytes from the base of the mastercpu
  region, mapped at 0xc000-0xdfff), where selecting 5 and reading at window offset 0x10
  gives \<open>MASTER[5 * 0x2000 + 0x10]\<close>, for the sound bank and for the entries 0..3 of the
  slave bank, in every state the machine reaches from its start. The entries 8..15 of
  the slave bank are configured from \<^verbatim>\<open>&SLAVE[0x10000]\<close> and read
  \<open>SLAVE[0x10000 + (i - 8) * 0x4000 + off]\<close>.
\<close>

theorem bank_select_then_read:
  "(start \<le> i \<and> i < start + n \<and> off < sz \<and> base + n * sz \<le> length (mem r) \<longrightarrow>
      bank_read mem (set_entry i (configure_entries start n (r, base) sz b)) off =
        Some (mem r ! (base + (i - start) * sz + off)))
   \<and> (length (memregion s0 REGION_mastercpu) = 0x40000 \<and> j < 32 \<and> off' < 0x2000 \<longrightarrow>
        mastercpu_am (0xc000 + off') = Some (0xc000, AM_BANKR MASTER_BANK)
        \<and> bankr_read (bank_set_entry MASTER_BANK j (run as (machine_start (djboy s0))))
            MASTER_BANK off' = Some (memregion s0 REGION_mastercpu ! (j * 0x2000 + off')))
   \<and> (length (memregion s0 REGION_mastercpu) = 0x40000 \<longrightarrow>
        bankr_read (bank_set_entry MASTER_BANK 5 (run as (machine_start (djboy s0))))
            MASTER_BANK 0x10 = Some (memregion s0 REGION_mastercpu ! (5 * 0x2000 + 0x10)))
   \<and> (length (memregion s0 REGION_soundcpu) = 0x20000 \<and> j < 8 \<and> off' < 0x4000 \<longrightarrow>
        bankr_read (bank_set_entry SOUND_BANK j (run as (machine_start (djboy s0))))
            SOUND_BANK off' = Some (memregion s0 REGION_soundcpu ! (j * 0x4000 + off')))
   \<and> (length (memregion s0 REGION_slavecpu) = 0x30000 \<and> j < 4 \<and> off' < 0x4000 \<longrightarrow>
        bankr_read (bank_set_entry SLAVE_BANK j (run as (machine_start (djboy s0))))
            SLAVE_BANK off' = Some (memregion s0 REGION_slavecpu ! (j * 0x4000 + off')))
   \<and> (length (memregion s0 REGION_slavecpu) = 0x30000 \<and> 8 \<le> j \<and> j < 16 \<and> off' < 0x4000 \<longrightarrow>
        bankr_read (bank_set_entry SLAVE_BANK j (run as (machine_start (djboy s0))))
            SLAVE_BANK off' =
          Some (memregion s0 REGION_slavecpu ! (0x10000 + (j - 8) * 0x4000 + off')))"
proof (intro conjI impI)
  assume "start \<le> i \<and> i < start + n \<and> off < sz \<and> base + n * sz \<le> length (mem r)"
  then show "bank_read mem (set_entry i (configure_entries start n (r, base) sz b)) off =
        Some (mem r ! (base + (i - start) * sz + off))"
    by (simp add: bank_select_read_from)
next
  assume "length (memregion s0 REGION_mastercpu) = 0x40000 \<and> j < 32 \<and> off' < 0x2000"
  then show "mastercpu_am (0xc000 + off') = Some (0xc000, AM_BANKR MASTER_BANK)"
    by (simp add: mastercpu_am_def)
next
  assume "length (memregion s0 REGION_mastercpu) = 0x40000 \<and> j < 32 \<and> off' < 0x2000"
  then show "bankr_read (bank_set_entry MASTER_BANK j (run as (machine_start (djboy s0))))
            MASTER_BANK off' = Some (memregion s0 REGION_mastercpu ! (j * 0x2000 + off'))"
    by (simp add: master_window_read)
next
  assume "length (memregion s0 REGION_mastercpu) = 0x40000"
  then show "bankr_read (bank_set_entry MASTER_BANK 5 (run as (machine_start (djboy s0))))
            MASTER_BANK 0x10 = Some (memregion s0 REGION_mastercpu ! (5 * 0x2000 + 0x10))"
    using master_window_read [of s0 5 "0x10" as] by simp
next
  assume "length (memregion s0 REGION_soundcpu) = 0x20000 \<and> j < 8 \<and> off' < 0x4000"
  then show "bankr_read (bank_set_entry SOUND_BANK j (run as (machine_start (djboy s0))))
            SOUND_BANK off' = Some (memregion s0 REGION_soundcpu ! (j * 0x4000 + off'))"
    by (simp add: sound_window_read)
next
  assume "length (memregion s0 REGION_slavecpu) = 0x30000 \<and> j < 4 \<and> off' < 0x4000"
  then show "bankr_read (bank_set_entry SLAVE_BANK j (run as (machine_start (djboy s0))))
            SLAVE_BANK off' = Some (memregion s0 REGION_slavecpu ! (j * 0x4000 + off'))"
    by (simp add: slave_window_read_low)
next
  assume "length (memregion s0 REGION_slavecpu) = 0x30000 \<and> 8 \<le> j \<and> j < 16 \<and> off' < 0x4000"
  then show "bankr_read (bank_set_entry SLAVE_BANK j (run as (machine_start (djboy s0))))
            SLAVE_BANK off' =
          Some (memregion s0 REGION_slavecpu ! (0x10000 + (j - 8) * 0x4000 + off'))"
    by (simp add: slave_window_read_high)
qed

theorem bank_select_then_read_witness:
  "bank_read demo_rom
     (set_entry 9 (configure_entries 8 8 (REGION_slavecpu, 0x10000) 0x4000 bank_add)) 0x123
     = Some 5
   \<and> length (demo_rom REGION_mastercpu) = 0x40000
   \<and> length (demo_rom REGION_slavecpu) = 0x30000
   \<and> mastercpu_am 0xc010 = Some (0xc000, AM_BANKR MASTER_BANK)
   \<and> bankr_read
        (bank_set_entry MASTER_BANK 5
           (run [Master_port00_w 3, Beast_p1_w 7] (machine_start (djboy (demo_machine demo_rom)))))
        MASTER_BANK 0x10 = Some 5
   \<and> bankr_read
        (bank_set_entry SLAVE_BANK 8
           (run [Master_port00_w 3, Beast_p1_w 7] (machine_start (djboy (demo_machine demo_rom)))))
        SLAVE_BANK 0x10 = Some 4"
  using bank_select_then_read
    [of 8 9 8 "0x123" "0x4000" "0x10000" demo_rom REGION_slavecpu bank_add
        "demo_machine demo_rom" 5 "0x10" "[Master_port00_w 3, Beast_p1_w 7]"]
    bank_select_then_read
    [of 8 9 8 "0x123" "0x4000" "0x10000" demo_rom REGION_slavecpu bank_add
        "demo_machine demo_rom" 8 "0x10" "[Master_port00_w 3, Beast_p1_w 7]"]
  by (simp add: demo_rom_def demo_machine_def)

text \<open>
  C2, the claim as first stated, fails at the valid index 8 of the slave bank: on a
  slave ROM that holds in every byte the number of its 0x4000-byte page, selecting
  entry 8 and reading at window offset 0x10 gives 4, the byte at \<open>SLAVE[0x10000 + 0x10]\<close>,
  where \<open>SLAVE[8 * 0x4000 + 0x10]\<close> is 8; and counted from the base \<^verbatim>\<open>&SLAVE[0x10000]\<close> of
  the entry, \<open>8 * 0x4000 + 0x10\<close> lies outside the region.
\<close>

theorem slave_bank_entry_8_counterexample:
  "entry_configured (m_slavebank (machine_start (djboy (demo_machine demo_rom)))) 8
   \<and> bankr_read
        (bank_set_entry SLAVE_BANK 8 (machine_start (djboy (demo_machine demo_rom))))
        SLAVE_BANK 0x10 = Some 4
   \<and> demo_rom REGION_slavecpu ! (8 * 0x4000 + 0x10) = 8
   \<and> bankr_read
        (bank_set_entry SLAVE_BANK 8 (machine_start (djboy (demo_machine demo_rom))))
        SLAVE_BANK 0x10 \<noteq> Some (demo_rom REGION_slavecpu ! (8 * 0x4000 + 0x10))
   \<and> \<not> 0x10000 + 8 * 0x4000 + 0x10 < length (demo_rom REGION_slavecpu)"
proof -
  have l: "length (memregion (demo_machine demo_rom) REGION_slavecpu) = 0x30000"
    by (simp add: demo_machine_def demo_rom_def)
  have r: "bankr_read
        (bank_set_entry SLAVE_BANK 8 (machine_start (djboy (demo_machine demo_rom))))
        SLAVE_BANK 0x10 = Some 4"
    using slave_window_read_high [OF l, of 8 "0x10" "[]"]
    by (simp add: demo_machine_def demo_rom_def)
  have c: "entry_configured (m_slavebank (machine_start (djboy (demo_machine demo_rom)))) 8"
    by (simp add: entry_configured_def machine_start_slave_entries)
  have v: "demo_rom REGION_slavecpu ! (8 * 0x4000 + 0x10) = 8"
    by (simp add: demo_rom_def)
  have o: "\<not> 0x10000 + 8 * 0x4000 + 0x10 < length (demo_rom REGION_slavecpu)"
    by (simp add: demo_rom_def)
  from c r v o show ?thesis by simp
qed

text \<open>
  C3. The beastlatch is in separate-acknowledge mode in every state the machine reaches
  from its start. There a write of \<open>v\<close> (slave port 0x04) sets pending and stores \<open>v\<close>; a
  read by \<open>beast_p1_r\<close>, made when bit 0 of the retained port-0 value is 0, returns the
  stored value and leaves the latch as it is, pending included; \<open>beast_p0_w\<close> clears
  pending exactly when bit 0 of the written value is 0; and no other access of any
  processor clears pending.
\<close>

theorem beastlatch_separate_acknowledge:
  assumes "s = run as (machine_start (djboy s0))"
  shows "separate_acknowledge (m_beastlatch s)
   \<and> pending (m_beastlatch (step (Slave_port04_w v) s))
   \<and> latched_value (m_beastlatch (step (Slave_port04_w v) s)) = v
   \<and> (\<not> bit (m_beast_p0 s) 0 \<longrightarrow>
        fst (beast_p1_r s) = latched_value (m_beastlatch s)
        \<and> m_beastlatch (snd (beast_p1_r s)) = m_beastlatch s
        \<and> fst (beast_p1_r (step (Slave_port04_w v) s)) = v
        \<and> pending (m_beastlatch (snd (beast_p1_r (step (Slave_port04_w v) s)))))
   \<and> pending (m_beastlatch (beast_p0_w data s)) = (pending (m_beastlatch s) \<and> bit data 0)
   \<and> (pending (m_beastlatch s) \<and> \<not> pending (m_beastlatch (step a s)) \<longrightarrow>
        (\<exists>d. a = Beast_p0_w d \<and> \<not> bit d 0))"
proof -
  have "wiring s = wiring (machine_start (djboy s0))"
    unfolding assms by (rule wiring_run)
  then have sep: "separate_acknowledge (m_beastlatch s)"
    by (simp add: wiring_def machine_start_wiring)
  have w: "pending (m_beastlatch (step (Slave_port04_w v) s))
      \<and> latched_value (m_beastlatch (step (Slave_port04_w v) s)) = v"
    by (simp add: handler_defs device_defs)
  have r: "\<not> bit (m_beast_p0 s) 0 \<longrightarrow>
        fst (beast_p1_r s) = latched_value (m_beastlatch s)
        \<and> m_beastlatch (snd (beast_p1_r s)) = m_beastlatch s
        \<and> fst (beast_p1_r (step (Slave_port04_w v) s)) = v
        \<and> pending (m_beastlatch (snd (beast_p1_r (step (Slave_port04_w v) s))))"
    using sep by (simp add: handler_defs device_defs BIT_eq0_iff)
  have k: "pending (m_beastlatch (beast_p0_w data s)) = (pending (m_beastlatch s) \<and> bit data 0)"
    by (simp add: handler_defs device_defs BIT_eq0_iff BIT_neq0_iff Let_def)
  have o: "pending (m_beastlatch s) \<and> \<not> pending (m_beastlatch (step a s)) \<longrightarrow>
        (\<exists>d. a = Beast_p0_w d \<and> \<not> bit d 0)"
    using sep
    by (cases a)
      (simp_all add: handler_defs device_defs BIT_eq0_iff BIT_neq0_iff Let_def split: if_splits)
  from sep w r k o show ?thesis by blast
qed

theorem beastlatch_separate_acknowledge_witness:
  "\<not> bit (m_beast_p0
        (run [Beast_p1_w 1, Slave_port04_w 0x42] (machine_start (djboy (demo_machine demo_rom))))) 0
   \<and> pending (m_beastlatch
        (run [Beast_p1_w 1, Slave_port04_w 0x42] (machine_start (djboy (demo_machine demo_rom)))))
   \<and> fst (beast_p1_r
        (run [Beast_p1_w 1, Slave_port04_w 0x42] (machine_start (djboy (demo_machine demo_rom)))))
       = 0x42
   \<and> pending (m_beastlatch (snd (beast_p1_r
        (run [Beast_p1_w 1, Slave_port04_w 0x42] (machine_start (djboy (demo_machine demo_rom)))))))
   \<and> \<not> pending (m_beastlatch (step (Beast_p0_w 0xfe)
        (run [Beast_p1_w 1, Slave_port04_w 0x42] (machine_start (djboy (demo_machine demo_rom))))))
   \<and> (\<exists>d. Beast_p0_w 0xfe = Beast_p0_w d \<and> \<not> bit d 0)"
  using beastlatch_separate_acknowledge
    [of "run [Beast_p1_w 1, Slave_port04_w 0x42] (machine_start (djboy (demo_machine demo_rom)))"
        "[Beast_p1_w 1, Slave_port04_w 0x42]" "demo_machine demo_rom" "0x42" "0xfe"
        "Beast_p0_w 0xfe"]
  by (simp add: handler_defs device_defs demo_machine_def machine_start_def djboy_def
      save_item_def latch_add_def Let_def BIT_def)

text \<open>
  C4. Not every bank-select port keeps to the configured entries of its bank. The port
  of the slave CPU does (\<open>slavecpu_bankswitch_w\<close> masks the byte to four bits and does
  nothing for 4..7; the entries 0..3 and 8..15 are configured). The port of the sound
  CPU passes the byte on as it is: \<open>soundcpu_bankswitch_w\<close>, written 0x08 on a sound bank
  whose entries are 0..7, selects entry 8, which is not configured, and the window of
  the bank is then unmapped.
\<close>

theorem soundcpu_bankswitch_w_unconfigured:
  "calls (soundcpu_bankswitch_w 0x08 (machine_start (djboy s0))) = [Bank_set_entry SOUND_BANK 8]
   \<and> curentry (m_soundbank (soundcpu_bankswitch_w 0x08 (machine_start (djboy s0)))) = 8
   \<and> \<not> entry_configured (m_soundbank (soundcpu_bankswitch_w 0x08 (machine_start (djboy s0)))) 8
   \<and> entry_configured (m_soundbank (machine_start (djboy s0))) = (\<lambda>n. n < 8)
   \<and> bankr_read (soundcpu_bankswitch_w 0x08 (machine_start (djboy s0))) SOUND_BANK off = None"
proof -
  have e: "entries (m_soundbank (soundcpu_bankswitch_w 0x08 (machine_start (djboy s0)))) =
           entries (m_soundbank (machine_start (djboy s0)))"
    by (simp add: soundcpu_bankswitch_w_def bank_set_entry_def do_call_def set_entry_def)
  have c: "curentry (m_soundbank (soundcpu_bankswitch_w 0x08 (machine_start (djboy s0)))) = 8"
    by (simp add: soundcpu_bankswitch_w_def bank_set_entry_def do_call_def set_entry_def)
  have l: "calls (soundcpu_bankswitch_w 0x08 (machine_start (djboy s0))) =
      [Bank_set_entry SOUND_BANK 8]"
    by (simp add: soundcpu_bankswitch_w_def bank_set_entry_def do_call_def set_entry_def
        machine_start_def djboy_def save_item_def Let_def)
  have n: "\<not> entry_configured (m_soundbank (soundcpu_bankswitch_w 0x08 (machine_start (djboy s0)))) 8"
    by (simp add: entry_configured_def e machine_start_sound_entries)
  have a: "entry_configured (m_soundbank (machine_start (djboy s0))) = (\<lambda>n. n < 8)"
    by (rule ext) (simp add: entry_configured_def machine_start_sound_entries)
  have r: "bankr_read (soundcpu_bankswitch_w 0x08 (machine_start (djboy s0))) SOUND_BANK off = None"
    by (simp add: bankr_read_def bank_read_def c e machine_start_sound_entries)
  from l c n a r show ?thesis by blast
qed

text \<open>
  C5 (as amended). For every byte \<open>data\<close> written to the bank-select port of the master
  CPU, \<open>mastercpu_bankswitch_w\<close> selects entry \<open>data XOR m_bankxor\<close> of the master bank (and
  entry 0 of the lower bank), where \<open>m_bankxor\<close> is 0x00 for the sets djboy and djboya and
  0x1f for the set djboyj, in every state the machine reaches: the XOR is applied to the
  raw index before the bank lookup. The window then reads the bank of that number where
  it is one of the 32 configured ones. The same raw write \<open>data\<close> so selects entry \<open>data\<close>
  on djboy and entry \<open>data XOR 0x1f\<close> on djboyj, the entry that the raw write
  \<open>data XOR 0x1f\<close> selects on djboy. Which bytes the two entries hold is the ROMs' matter.
\<close>

theorem mastercpu_bankswitch_xor:
  "m_bankxor (driver_init GAME_djboy s) = 0x00
   \<and> m_bankxor (driver_init GAME_djboya s) = 0x00
   \<and> m_bankxor (driver_init GAME_djboyj s) = 0x1f
   \<and> m_bankxor (run as (machine_start (driver_init g (djboy s0)))) =
       (if g = GAME_djboyj then 0x1f else 0x00)
   \<and> curentry (m_masterbank (mastercpu_bankswitch_w data s)) = unat (data XOR m_bankxor s)
   \<and> calls (mastercpu_bankswitch_w data s) =
       calls s @ [Bank_set_entry MASTER_BANK (unat (data XOR m_bankxor s)),
                  Bank_set_entry MASTER_BANK_L 0]
   \<and> (length (memregion s0 REGION_mastercpu) = 0x40000
        \<and> unat (data XOR (if g = GAME_djboyj then 0x1f else 0x00)) < 32 \<and> off < 0x2000 \<longrightarrow>
        bankr_read
          (mastercpu_bankswitch_w data (run as (machine_start (driver_init g (djboy s0)))))
          MASTER_BANK off =
        Some (memregion s0 REGION_mastercpu !
               (unat (data XOR (if g = GAME_djboyj then 0x1f else 0x00)) * 0x2000 + off)))
   \<and> curentry (m_masterbank (mastercpu_bankswitch_w data
        (run as' (machine_start (driver_init GAME_djboyj (djboy j0)))))) =
     curentry (m_masterbank (mastercpu_bankswitch_w (data XOR 0x1f)
        (run as (machine_start (driver_init GAME_djboy (djboy s0))))))"
proof -
  have i: "m_bankxor (driver_init GAME_djboy s) = 0x00
      \<and> m_bankxor (driver_init GAME_djboya s) = 0x00
      \<and> m_bankxor (driver_init GAME_djboyj s) = 0x1f"
    by (simp add: init_djboy_def init_djboyj_def)
  have c: "curentry (m_masterbank (mastercpu_bankswitch_w d t)) = unat (d XOR m_bankxor t)"
    for d t
    by (simp add: mastercpu_bankswitch_w_def bank_set_entry_def do_call_def set_entry_def Let_def)
  have l: "calls (mastercpu_bankswitch_w data s) =
       calls s @ [Bank_set_entry MASTER_BANK (unat (data XOR m_bankxor s)),
                  Bank_set_entry MASTER_BANK_L 0]"
    by (simp add: mastercpu_bankswitch_w_def bank_set_entry_def do_call_def set_entry_def Let_def)
  have r: "length (memregion s0 REGION_mastercpu) = 0x40000
        \<and> unat (data XOR (if g = GAME_djboyj then 0x1f else 0x00)) < 32 \<and> off < 0x2000 \<longrightarrow>
        bankr_read
          (mastercpu_bankswitch_w data (run as (machine_start (driver_init g (djboy s0)))))
          MASTER_BANK off =
        Some (memregion s0 REGION_mastercpu !
               (unat (data XOR (if g = GAME_djboyj then 0x1f else 0x00)) * 0x2000 + off))"
    using bankswitch_window_read [of s0 data g off as] by blast
  have n: "curentry (m_masterbank (mastercpu_bankswitch_w data
        (run as' (machine_start (driver_init GAME_djboyj (djboy j0)))))) =
     curentry (m_masterbank (mastercpu_bankswitch_w (data XOR 0x1f)
        (run as (machine_start (driver_init GAME_djboy (djboy s0))))))"
    unfolding c run_bankxor by simp
  from i run_bankxor [of as g s0] c [of data s] l r n show ?thesis by blast
qed

theorem mastercpu_bankswitch_xor_witness:
  "length (rom_start GAME_djboyj demo_files REGION_mastercpu) = 0x40000
   \<and> unat ((3 :: u8) XOR 0x1f) < 32
   \<and> bankr_read
        (mastercpu_bankswitch_w 3
           (run [Beast_p2_w 9]
              (machine_start (driver_init GAME_djboyj
                 (djboy (demo_machine (rom_start GAME_djboyj demo_files)))))))
        MASTER_BANK 0x10 = Some 28
   \<and> curentry (m_masterbank (mastercpu_bankswitch_w 3
        (run [Beast_p2_w 9]
           (machine_start (driver_init GAME_djboyj
              (djboy (demo_machine (rom_start GAME_djboyj demo_files))))))))
       = 28"
proof -
  have f1: "length (demo_files (mastercpu_rom GAME_djboyj)) = 0x20000"
    by (simp add: demo_files_def)
  have f2: "length (demo_files BS100_4D) = 0x20000"
    by (simp add: demo_files_def)
  have h0: "length (rom_start GAME_djboyj demo_files REGION_mastercpu) = 0x40000"
    using f1 f2 by (rule rom_start_master_length)
  then have h1: "length (memregion (demo_machine (rom_start GAME_djboyj demo_files))
      REGION_mastercpu) = 0x40000"
    by (simp add: demo_machine_def)
  have "rom_start GAME_djboyj demo_files REGION_mastercpu ! 0x38010 =
      demo_files BS100_4D ! (0x38010 - 0x20000)"
    using f1 f2 by (intro rom_start_master_high) simp_all
  then have v: "memregion (demo_machine (rom_start GAME_djboyj demo_files)) REGION_mastercpu
      ! (unat ((3::u8) XOR 0x1f) * 0x2000 + 0x10) = 28"
    by (simp add: demo_machine_def demo_files_def)
  have x: "m_bankxor (run [Beast_p2_w 9]
      (machine_start (driver_init GAME_djboyj
         (djboy (demo_machine (rom_start GAME_djboyj demo_files)))))) = 0x1f"
    using run_bankxor
      [of "[Beast_p2_w 9]" GAME_djboyj "demo_machine (rom_start GAME_djboyj demo_files)"]
    by simp
  note T = mastercpu_bankswitch_xor
    [of "run [Beast_p2_w 9]
           (machine_start (driver_init GAME_djboyj
              (djboy (demo_machine (rom_start GAME_djboyj demo_files)))))"
        "[Beast_p2_w 9]" GAME_djboyj "demo_machine (rom_start GAME_djboyj demo_files)"
        3 "0x10"]
  have a: "bankr_read
        (mastercpu_bankswitch_w 3
           (run [Beast_p2_w 9]
              (machine_start (driver_init GAME_djboyj
                 (djboy (demo_machine (rom_start GAME_djboyj demo_files)))))))
        MASTER_BANK 0x10 = Some 28"
    using T h1 v by simp
  have c: "curentry (m_masterbank (mastercpu_bankswitch_w 3
        (run [Beast_p2_w 9]
           (machine_start (driver_init GAME_djboyj
              (djboy (demo_machine (rom_start GAME_djboyj demo_files))))))))
       = 28"
    using T x by simp
  from h0 a c show ?thesis by simp
qed

text \<open>
  C5, the claim as first stated, fails in its last clause. With ROM regions laid out as
  the \<^verbatim>\<open>ROM_START\<close> blocks declare them (a file of the set in the banks 0..15 and the
  shared \<^verbatim>\<open>bs100.4d\<close> in the banks 16..31), the raw write 3 selects bank 3 on djboy and
  bank 28 on djboyj: on the files of \<open>demo_files\<close> the window reads 0xaa, a byte of
  \<^verbatim>\<open>bs64.4b\<close>, on the one and 28, a byte of \<^verbatim>\<open>bs100.4d\<close>, on the other.
\<close>

theorem mastercpu_bankswitch_content_counterexample:
  "bankr_read
     (mastercpu_bankswitch_w 3
        (machine_start (driver_init GAME_djboy
           (djboy (demo_machine (rom_start GAME_djboy demo_files))))))
     MASTER_BANK 0x10 = Some 0xaa
   \<and> bankr_read
       (mastercpu_bankswitch_w 3
          (machine_start (driver_init GAME_djboyj
             (djboy (demo_machine (rom_start GAME_djboyj demo_files))))))
       MASTER_BANK 0x10 = Some 28
   \<and> bankr_read
       (mastercpu_bankswitch_w 3
          (machine_start (driver_init GAME_djboyj
             (djboy (demo_machine (rom_start GAME_djboyj demo_files))))))
       MASTER_BANK 0x10 \<noteq>
     bankr_read
       (mastercpu_bankswitch_w 3
          (machine_start (driver_init GAME_djboy
             (djboy (demo_machine (rom_start GAME_djboy demo_files))))))
       MASTER_BANK 0x10"
proof -
  have f2: "length (demo_files BS100_4D) = 0x20000"
    by (simp add: demo_files_def)
  have fa: "length (demo_files (mastercpu_rom GAME_djboy)) = 0x20000"
    by (simp add: demo_files_def)
  have fj: "length (demo_files (mastercpu_rom GAME_djboyj)) = 0x20000"
    by (simp add: demo_files_def)
  have la: "length (memregion (demo_machine (rom_start GAME_djboy demo_files))
      REGION_mastercpu) = 0x40000"
    using rom_start_master_length [OF fa f2] by (simp add: demo_machine_def)
  have lj: "length (memregion (demo_machine (rom_start GAME_djboyj demo_files))
      REGION_mastercpu) = 0x40000"
    using rom_start_master_length [OF fj f2] by (simp add: demo_machine_def)
  have "rom_start GAME_djboy demo_files REGION_mastercpu ! 0x6010 =
      demo_files (mastercpu_rom GAME_djboy) ! 0x6010"
    using fa by (intro rom_start_master_low) simp_all
  then have va: "memregion (demo_machine (rom_start GAME_djboy demo_files)) REGION_mastercpu
      ! (unat (3::u8) * 0x2000 + 0x10) = 0xaa"
    by (simp add: demo_machine_def demo_files_def)
  have "rom_start GAME_djboyj demo_files REGION_mastercpu ! 0x38010 =
      demo_files BS100_4D ! (0x38010 - 0x20000)"
    using fj f2 by (intro rom_start_master_high) simp_all
  then have vj: "memregion (demo_machine (rom_start GAME_djboyj demo_files)) REGION_mastercpu
      ! (unat ((3::u8) XOR 0x1f) * 0x2000 + 0x10) = 28"
    by (simp add: demo_machine_def demo_files_def)
  have a: "bankr_read
     (mastercpu_bankswitch_w 3
        (machine_start (driver_init GAME_djboy
           (djboy (demo_machine (rom_start GAME_djboy demo_files))))))
     MASTER_BANK 0x10 = Some 0xaa"
    using bankswitch_window_read
      [of "demo_machine (rom_start GAME_djboy demo_files)" 3 GAME_djboy "0x10" "[]"] la va
    by simp
  have j: "bankr_read
       (mastercpu_bankswitch_w 3
          (machine_start (driver_init GAME_djboyj
             (djboy (demo_machine (rom_start GAME_djboyj demo_files))))))
       MASTER_BANK 0x10 = Some 28"
    using bankswitch_window_read
      [of "demo_machine (rom_start GAME_djboyj demo_files)" 3 GAME_djboyj "0x10" "[]"] lj vj
    by simp
  from a j show ?thesis by simp
qed




text \<open>
  C7. The port reads of the Beast have fixed defaults and always return: \<open>beast_p0_r\<close>
  returns 0; \<open>beast_p1_r\<close> returns 0 when bit 0 of the retained port-0 value is 1;
  \<open>beast_p2_r\<close> returns 0xff when bits 2-3 of the retained port-0 value are 3, and the
  input port IN1, IN2 or IN0 when they are 0, 1 or 2. None of these reads changes the
  state.
\<close>

theorem beast_port_read_defaults:
  "beast_p0_r s = (0, s)
   \<and> (bit (m_beast_p0 s) 0 \<longrightarrow> beast_p1_r s = (0, s))
   \<and> (unat (m_beast_p0 s) div 4 mod 4 = 3 \<longrightarrow> beast_p2_r s = (0xff, s))
   \<and> (unat (m_beast_p0 s) div 4 mod 4 = 0 \<longrightarrow> beast_p2_r s = (m_port_in s 1, s))
   \<and> (unat (m_beast_p0 s) div 4 mod 4 = 1 \<longrightarrow> beast_p2_r s = (m_port_in s 2, s))
   \<and> (unat (m_beast_p0 s) div 4 mod 4 = 2 \<longrightarrow> beast_p2_r s = (m_port_in s 0, s))"
  by (simp add: beast_p0_r_def beast_p1_r_def beast_p2_r_def BIT_eq0_iff Let_def sel_eq_iff)

theorem beast_port_read_defaults_witness:
  "bit (m_beast_p0 (beast_p0_w 0x0d (demo_machine demo_rom))) 0
   \<and> fst (beast_p1_r (beast_p0_w 0x0d (demo_machine demo_rom))) = 0
   \<and> unat (m_beast_p0 (beast_p0_w 0x0d (demo_machine demo_rom))) div 4 mod 4 = 3
   \<and> fst (beast_p2_r (beast_p0_w 0x0d (demo_machine demo_rom))) = 0xff
   \<and> unat (m_beast_p0 (beast_p0_w 0x05 (demo_machine demo_rom))) div 4 mod 4 = 1
   \<and> fst (beast_p2_r (beast_p0_w 0x05 (demo_machine demo_rom))) = 0xf2"
  using beast_port_read_defaults [of "beast_p0_w 0x0d (demo_machine demo_rom)"]
    beast_port_read_defaults [of "beast_p0_w 0x05 (demo_machine demo_rom)"]
  by (simp add: handler_defs device_defs demo_machine_def Let_def BIT_def)

text \<open>
  C8. The sound board registers no item for the save state: \<open>device_start\<close> is empty,
  where \<open>machine_start\<close> of DJ Boy registers its video and Beast registers. A board
  that is saved after 0x80 was written to its reset-control register and restored into
  a board just reset comes back with 0x00 in that register; a write of 0x00 then resets
  the BSMT chip on the board that kept running and not on the restored one.
\<close>

theorem decobsmt_registers_not_saved:
  "bsmt_save_items (device_start (decobsmt_device_new d)) = []
   \<and> save_items (machine_start (djboy s0)) =
       [ITEM_m_videoreg, ITEM_m_scrollx, ITEM_m_scrolly,
        ITEM_m_beast_p0, ITEM_m_beast_p1, ITEM_m_beast_p2, ITEM_m_beast_p3]
   \<and> state_save (bsmt_reset_w 0x80 (device_reset (device_start (decobsmt_device_new d)))) = []
   \<and> m_bsmt_reset (bsmt_reset_w 0x80 (device_reset (device_start (decobsmt_device_new d))))
       = 0x80
   \<and> m_bsmt_reset
       (state_load
          (state_save (bsmt_reset_w 0x80 (device_reset (device_start (decobsmt_device_new d)))))
          (device_reset (device_start (decobsmt_device_new d)))) = 0x00
   \<and> bsmt_calls
       (bsmt_reset_w 0x00
          (bsmt_reset_w 0x80 (device_reset (device_start (decobsmt_device_new d)))))
       = [Bsmt_reset]
   \<and> bsmt_calls
       (bsmt_reset_w 0x00
          (state_load
             (state_save (bsmt_reset_w 0x80 (device_reset (device_start (decobsmt_device_new d)))))
             (device_reset (device_start (decobsmt_device_new d)))))
       = []"
  by (simp add: device_start_def decobsmt_device_new_def device_reset_def bsmt_reset_w_def
      state_save_def state_load_def machine_start_def djboy_def save_item_def Let_def)

text \<open>
  C9. Reading the pending flags changes nothing. \<open>beast_status_r\<close> returns a byte made
  of the two pending flags alone (bit 2 is 0 when the slave latch is pending and 1
  otherwise, bit 3 is 1 when the beast latch is pending and 0 otherwise, every other bit
  is 0) and leaves the state as it is. Bits 2 and 3 of \<open>beast_p3_r\<close> report the pending
  flags of the beast latch (inverted) and of the slave latch, and the read leaves the
  state as it is, so that a second read returns the same byte.
\<close>

theorem pending_reads_have_no_side_effects:
  "snd (beast_status_r s) = s
   \<and> fst (beast_status_r s) =
       (if pending (m_slavelatch s) then 0x0 else 0x4) OR
       (if pending (m_beastlatch s) then 0x8 else 0x0)
   \<and> bit (fst (beast_status_r s)) 2 = (\<not> pending (m_slavelatch s))
   \<and> bit (fst (beast_status_r s)) 3 = pending (m_beastlatch s)
   \<and> pending_r l = pending l
   \<and> snd (beast_p3_r s) = s
   \<and> bit (fst (beast_p3_r s)) 2 = (\<not> pending (m_beastlatch s))
   \<and> bit (fst (beast_p3_r s)) 3 = pending (m_slavelatch s)
   \<and> fst (beast_status_r (snd (beast_status_r s))) = fst (beast_status_r s)
   \<and> fst (beast_p3_r (snd (beast_p3_r s))) = fst (beast_p3_r s)
   \<and> step Slave_port0c_r s = s
   \<and> step Beast_p3_r s = s"
proof -
  have s1: "snd (beast_status_r s) = s" by (simp add: beast_status_r_def)
  have s3: "snd (beast_p3_r s) = s" by (simp add: beast_p3_r_def Let_def)
  have v: "fst (beast_status_r s) =
       (if pending (m_slavelatch s) then 0x0 else 0x4) OR
       (if pending (m_beastlatch s) then 0x8 else 0x0)"
    by (simp add: beast_status_r_def pending_r_def)
  have b2: "bit (fst (beast_status_r s)) 2 = (\<not> pending (m_slavelatch s))"
    unfolding v by (simp add: bit_or_iff)
  have b3: "bit (fst (beast_status_r s)) 3 = pending (m_beastlatch s)"
    unfolding v by (simp add: bit_or_iff)
  have p2: "bit (fst (beast_p3_r s)) 2 = (\<not> pending (m_beastlatch s))"
    by (simp add: beast_p3_r_def Let_def pending_r_def bit_or_iff bit_push_bit_iff)
  have p3: "bit (fst (beast_p3_r s)) 3 = pending (m_slavelatch s)"
    by (simp add: beast_p3_r_def Let_def pending_r_def bit_or_iff bit_push_bit_iff)
  from s1 s3 v b2 b3 p2 p3 show ?thesis by (simp add: pending_r_def)
qed

theorem pending_reads_have_no_side_effects_witness:
  "fst (beast_status_r (step (Slave_port04_w 1) (machine_start (djboy (demo_machine demo_rom)))))
     = 0x0c
   \<and> snd (beast_status_r (step (Slave_port04_w 1) (machine_start (djboy (demo_machine demo_rom)))))
     = step (Slave_port04_w 1) (machine_start (djboy (demo_machine demo_rom)))
   \<and> fst (beast_p3_r (step (Slave_port04_w 1) (machine_start (djboy (demo_machine demo_rom)))))
       AND 0x0c = 0x00"
  using pending_reads_have_no_side_effects
    [of "step (Slave_port04_w 1) (machine_start (djboy (demo_machine demo_rom)))"]
  by (simp add: handler_defs device_defs demo_machine_def machine_start_def djboy_def
      save_item_def latch_add_def Let_def BIT_def)

text \<open>
  C10. A write of \<open>data\<close> through \<open>beast_p0_w\<close> writes the retained port-1 value to the
  slave latch exactly once when bit 1 of the retained port-0 value is 0 and bit 1 of
  \<open>data\<close> is 1, and not at all otherwise; it acknowledges the beast latch exactly when
  bit 0 of \<open>data\<close> is 0; it makes no other call; and it retains \<open>data\<close> as the port-0
  value. \<open>beast_p1_w\<close> retains the port-1 value.
\<close>

theorem beast_p0_w_rising_edge:
  "calls (beast_p0_w data s) =
     calls s
     @ (if \<not> bit (m_beast_p0 s) 1 \<and> bit data 1
        then [Latch_write SLAVELATCH (m_beast_p1 s)] else [])
     @ (if \<not> bit data 0 then [Latch_acknowledge BEASTLATCH] else [])
   \<and> m_slavelatch (beast_p0_w data s) =
       (if \<not> bit (m_beast_p0 s) 1 \<and> bit data 1
        then latch_write (m_beast_p1 s) (m_slavelatch s) else m_slavelatch s)
   \<and> m_beastlatch (beast_p0_w data s) =
       (if \<not> bit data 0 then latch_acknowledge (m_beastlatch s) else m_beastlatch s)
   \<and> m_beast_p0 (beast_p0_w data s) = data
   \<and> m_beast_p1 (beast_p0_w data s) = m_beast_p1 s
   \<and> m_beast_p1 (beast_p1_w v s) = v"
  by (simp add: beast_p0_w_def beast_p1_w_def generic_latch_write_def
      generic_latch_acknowledge_def do_call_def BIT_eq0_iff BIT_neq0_iff Let_def)

theorem beast_p0_w_rising_edge_witness:
  "calls (beast_p0_w 0x02 (demo_machine demo_rom)) =
     [Latch_write SLAVELATCH 0x5a, Latch_acknowledge BEASTLATCH]
   \<and> calls (beast_p0_w 0x03 (beast_p0_w 0x02 (demo_machine demo_rom))) =
     [Latch_write SLAVELATCH 0x5a, Latch_acknowledge BEASTLATCH]
   \<and> pending (m_slavelatch (beast_p0_w 0x02 (demo_machine demo_rom)))
   \<and> latched_value (m_slavelatch (beast_p0_w 0x02 (demo_machine demo_rom))) = 0x5a"
  using beast_p0_w_rising_edge [of "0x02" "demo_machine demo_rom"]
    beast_p0_w_rising_edge [of "0x03" "beast_p0_w 0x02 (demo_machine demo_rom)"]
  by (simp add: demo_machine_def latch_write_def latch_add_def)

end
